theory Spec2Isabelle
  imports Main
begin

section \<open>Strings as the page script uses them\<close>

text \<open>
  The controller is the class \<open>BlindVisionApp\<close> of \<open>src/web/app.js\<close>. Its transcripts
  and messages are JavaScript strings, modelled as \<open>string\<close>: a \<open>char\<close> is a code unit
  below 256, read as Unicode does (so \<open>0xA0\<close> is the no-break space and \<open>0xC0\<close> to
  \<open>0xDE\<close> are capital letters). The four string operations the filter uses are written
  out on these: \<open>toLowerCase\<close> (the letters A to Z and the capital letters from \<open>0xC0\<close> to
  \<open>0xDE\<close>, the multiplication sign \<open>0xD7\<close> apart), \<open>trim\<close> (white space and line
  terminators: \<open>0x09\<close> to \<open>0x0D\<close>, the space and the no-break space), \<open>split(' ')\<close>
  (which yields an empty piece between two adjacent spaces and one empty piece for the
  empty string) and \<open>includes\<close> (substring search).
\<close>

definition toLowerChar :: "char \<Rightarrow> char" where
  "toLowerChar c =
     (case map_of
        (zip (''ABCDEFGHIJKLMNOPQRSTUVWXYZ'' @
              [CHR 0xC0, CHR 0xC1, CHR 0xC2, CHR 0xC3, CHR 0xC4, CHR 0xC5, CHR 0xC6, CHR 0xC7,
               CHR 0xC8, CHR 0xC9, CHR 0xCA, CHR 0xCB, CHR 0xCC, CHR 0xCD, CHR 0xCE, CHR 0xCF,
               CHR 0xD0, CHR 0xD1, CHR 0xD2, CHR 0xD3, CHR 0xD4, CHR 0xD5, CHR 0xD6,
               CHR 0xD8, CHR 0xD9, CHR 0xDA, CHR 0xDB, CHR 0xDC, CHR 0xDD, CHR 0xDE])
             (''abcdefghijklmnopqrstuvwxyz'' @
              [CHR 0xE0, CHR 0xE1, CHR 0xE2, CHR 0xE3, CHR 0xE4, CHR 0xE5, CHR 0xE6, CHR 0xE7,
               CHR 0xE8, CHR 0xE9, CHR 0xEA, CHR 0xEB, CHR 0xEC, CHR 0xED, CHR 0xEE, CHR 0xEF,
               CHR 0xF0, CHR 0xF1, CHR 0xF2, CHR 0xF3, CHR 0xF4, CHR 0xF5, CHR 0xF6,
               CHR 0xF8, CHR 0xF9, CHR 0xFA, CHR 0xFB, CHR 0xFC, CHR 0xFD, CHR 0xFE])) c of
        Some l \<Rightarrow> l
      | None \<Rightarrow> c)"

definition toLowerCase :: "string \<Rightarrow> string" where
  "toLowerCase s = map toLowerChar s"

definition isWhiteSpace :: "char \<Rightarrow> bool" where
  "isWhiteSpace c =
     (c \<in> {CHR '' '', CHR 0x09, CHR 0x0A, CHR 0x0B, CHR 0x0C, CHR 0x0D, CHR 0xA0})"

definition trim :: "string \<Rightarrow> string" where
  "trim s = rev (dropWhile isWhiteSpace (rev (dropWhile isWhiteSpace s)))"

fun split_from :: "string \<Rightarrow> string \<Rightarrow> string list" where
  "split_from cur [] = [rev cur]"
| "split_from cur (c # cs) =
     (if c = CHR '' '' then rev cur # split_from [] cs else split_from (c # cur) cs)"

definition split_space :: "string \<Rightarrow> string list" where
  "split_space s = split_from [] s"

fun includes_str :: "string \<Rightarrow> string \<Rightarrow> bool" where
  "includes_str [] p = (p = [])"
| "includes_str (c # cs) p = (take (length p) (c # cs) = p \<or> includes_str cs p)"


section \<open>The utterance filter inside \<open>recognition.onresult\<close>\<close>

text \<open>
  Lines 125--135 of \<open>app.js\<close>: the keyword list, the words of the lower-cased transcript,
  the echo test on three fixed fragments, and the condition of the \<open>if\<close> that lets a
  transcript through.
\<close>

definition questionWords :: "string list" where
  "questionWords =
     [''where'', ''what'', ''how'', ''can'', ''do'', ''is'', ''find'', ''see'', ''help'',
      ''color'', ''glasses'', ''backpack'', ''bag'']"

definition transcriptWords :: "string \<Rightarrow> string list" where
  "transcriptWords transcript = split_space (toLowerCase transcript)"

definition hasQuestionWord :: "string \<Rightarrow> bool" where
  "hasQuestionWord transcript =
     list_ex (\<lambda>q. q \<in> set (transcriptWords transcript)) questionWords"

definition isEcho :: "string \<Rightarrow> bool" where
  "isEcho transcript =
     (includes_str (toLowerCase transcript) ''the person on the left'' \<or>
      includes_str (toLowerCase transcript) ''wearing glasses and'' \<or>
      includes_str (toLowerCase transcript) ''room with'')"

definition meaningfulSpeech :: "string \<Rightarrow> bool" where
  "meaningfulSpeech transcript =
     (\<not> isEcho transcript \<and>
      (3 < length (transcriptWords transcript) \<or>
       (hasQuestionWord transcript \<and> 1 < length (transcriptWords transcript))))"



section \<open>The filter as the specification words it\<close>







section \<open>The application object and the browser around it\<close>

text \<open>
  A \<open>setTimeout\<close> callback is a value: which closure of the source it is, with the text
  the closure holds.
\<close>

datatype callback =
    SpeakResume string
  | SpeakNext string
  | StartCamera
  | StartListening
  | OnendRestart
  | WatchdogRestart
  | WatchdogRetry

text \<open>Every call the controller makes on a capability port is logged in order.\<close>

datatype port_call =
    RecognitionStart
  | RecognitionStop
  | AudioPlay nat
  | AudioPause nat
  | SynthCancel
  | SynthPause
  | SynthSpeak string
  | TtsFetch string
  | QueryFetch string

datatype recognition_support = Supported | Unsupported | ConstructorThrows

datatype camera_outcome = CameraOk | NotAllowedError | NotFoundError | OtherCameraError

datatype start_outcome = Started | AlreadyStarted | StartError

text \<open>
  What the page finds in its browser: whether a speech recogniser exists, whether the
  start screen of \<open>index.html\<close> is present, the user-agent test for a mobile device,
  whether \<open>speechSynthesis\<close> exists, whether an ElevenLabs key other than the placeholder
  is configured (the test of line 356), what \<open>getUserMedia\<close> answers, and whether
  \<open>recognition.start()\<close> throws for a reason other than being started already.
\<close>

record platform =
  support :: recognition_support
  startScreen :: bool
  isMobile :: bool
  hasSynth :: bool
  elevenLabsKeySet :: bool
  camera :: camera_outcome
  startFault :: bool

text \<open>
  The state. First the fields of \<open>BlindVisionApp\<close> that the controller reads or writes
  after construction (\<open>recognition\<close> and \<open>lastCapturedImage\<close> record whether the field is
  non-null, \<open>currentAudio\<close> holds the handle of an \<open>Audio\<close> element,
  \<open>mobileRestartInterval\<close> whether the interval is installed); then the browser side:
  whether the recogniser is running, which \<open>Audio\<close> elements are playing, the utterance
  \<open>speechSynthesis\<close> is speaking and its paused flag, the requests in flight, the pending
  timers ordered by due time, the clock and the log of port calls.
\<close>

record world =
  hasStarted :: bool
  speechQueue :: "string list"
  isPlaying :: bool
  currentAudio :: "nat option"
  recognition :: bool
  isListening :: bool
  lastCapturedImage :: bool
  continuousListening :: bool
  mobileRestartInterval :: bool
  env :: platform
  videoReady :: bool
  recRunning :: bool
  audioPlaying :: "nat list"
  nextAudio :: nat
  synthUtterance :: "string option"
  synthPaused :: bool
  pendingTTS :: "string list"
  pendingQuery :: "string list"
  timers :: "(nat \<times> callback) list"
  now :: nat
  calls :: "port_call list"


section \<open>Ports\<close>

text \<open>
  \<open>setTimeout\<close>: the callback becomes due \<open>delay\<close> after \<open>now\<close>; among timers due at the
  same time the earlier call fires first.
\<close>

fun schedule :: "nat \<times> callback \<Rightarrow> (nat \<times> callback) list \<Rightarrow> (nat \<times> callback) list" where
  "schedule t [] = [t]"
| "schedule t (u # us) = (if fst t < fst u then t # u # us else u # schedule t us)"

definition setTimeout :: "callback \<Rightarrow> nat \<Rightarrow> world \<Rightarrow> world" where
  "setTimeout cb delay w = w\<lparr>timers := schedule (now w + delay, cb) (timers w)\<rparr>"

text \<open>\<open>recognition.stop()\<close> closes the microphone at once; the end event comes later.\<close>

definition recognition_stop :: "world \<Rightarrow> world" where
  "recognition_stop w = w\<lparr>recRunning := False, calls := calls w @ [RecognitionStop]\<rparr>"

text \<open>
  \<open>recognition.start()\<close> throws when the recogniser is already started, or when the
  platform makes it throw; otherwise the recogniser runs.
\<close>

definition recognition_start :: "world \<Rightarrow> start_outcome \<times> world" where
  "recognition_start w =
     (let w1 = w\<lparr>calls := calls w @ [RecognitionStart]\<rparr> in
      if recRunning w then (AlreadyStarted, w1)
      else if startFault (env w) then (StartError, w1)
      else (Started, w1\<lparr>recRunning := True\<rparr>))"


section \<open>Speaking\<close>

text \<open>
  \<open>stopAllAudio\<close> (lines 379--428). The page of \<open>index.html\<close> holds no \<open>audio\<close> element
  and the script attaches none to the document (\<open>new Audio\<close> elements stay detached),
  so the loop over \<open>document.querySelectorAll('audio')\<close> has nothing to visit; nothing
  in the repository sets \<open>window.audioContext\<close>. Pausing the current element also removes
  its handlers, so it can no longer report that it ended; a cancelled utterance of the
  browser voice is taken to report nothing either.
\<close>

definition stopAllAudio :: "world \<Rightarrow> world" where
  "stopAllAudio w =
     (let w1 = (case currentAudio w of
                  Some a \<Rightarrow>
                    w\<lparr>audioPlaying := removeAll a (audioPlaying w),
                      calls := calls w @ [AudioPause a],
                      currentAudio := None\<rparr>
                | None \<Rightarrow> w);
          w2 = (if hasSynth (env w1)
                then w1\<lparr>synthUtterance := None, synthPaused := True,
                        calls := calls w1 @ [SynthCancel, SynthPause]\<rparr>
                else w1)
      in w2\<lparr>isPlaying := False\<rparr>)"

text \<open>
  \<open>speak\<close> (lines 326--377) up to its first \<open>await\<close>: the 300 ms wait is a timer whose
  callback \<open>SpeakResume\<close> is the rest of the body.
\<close>

definition speak :: "string \<Rightarrow> world \<Rightarrow> world" where
  "speak message w =
     (if isPlaying w then w\<lparr>speechQueue := speechQueue w @ [message]\<rparr>
      else
        let w1 = (if recognition w \<and> isListening w then recognition_stop w else w);
            w2 = w1\<lparr>isPlaying := True\<rparr>;
            w3 = stopAllAudio w2;
            w4 = w3\<lparr>isPlaying := True\<rparr>
        in setTimeout (SpeakResume message) 300 w4)"

text \<open>\<open>speakWithBrowser\<close> (lines 547--622): cancel, then speak a new utterance.\<close>

definition speakWithBrowser :: "string \<Rightarrow> world \<Rightarrow> world" where
  "speakWithBrowser message w =
     (if hasSynth (env w)
      then w\<lparr>synthUtterance := Some message,
             calls := calls w @ [SynthCancel, SynthSpeak message]\<rparr>
      else w)"

text \<open>The end of \<open>speak\<close> (lines 370--376): the next queued text is spoken 100 ms later.\<close>

definition speak_queued :: "world \<Rightarrow> world" where
  "speak_queued w =
     (case speechQueue w of
        [] \<Rightarrow> w
      | nextText # rest \<Rightarrow> setTimeout (SpeakNext nextText) 100 (w\<lparr>speechQueue := rest\<rparr>))"

text \<open>
  \<open>speak\<close> after the 300 ms wait (lines 355--368). With an ElevenLabs key the request is
  sent and \<open>speak\<close> waits for it; without one the browser speaks at once.
\<close>

definition speak_resume :: "string \<Rightarrow> world \<Rightarrow> world" where
  "speak_resume message w =
     (if elevenLabsKeySet (env w)
      then w\<lparr>pendingTTS := pendingTTS w @ [message], calls := calls w @ [TtsFetch message]\<rparr>
      else speak_queued (speakWithBrowser message w))"

text \<open>
  \<open>speakWithElevenLabs\<close> once the request has answered (lines 478--537): a new \<open>Audio\<close>
  element becomes the current audio, \<open>isPlaying\<close> is set, the element plays, and
  \<open>speak\<close> runs to its end. When the request fails, the \<open>catch\<close> of lines 539--544
  clears the flags and rethrows, and \<open>speak\<close> falls back to the browser voice.
\<close>

definition elevenLabs_playing :: "world \<Rightarrow> world" where
  "elevenLabs_playing w =
     (let a = nextAudio w in
      speak_queued
        (w\<lparr>nextAudio := Suc a, currentAudio := Some a, isPlaying := True,
           audioPlaying := audioPlaying w @ [a], calls := calls w @ [AudioPlay a]\<rparr>))"

definition elevenLabs_failed :: "string \<Rightarrow> world \<Rightarrow> world" where
  "elevenLabs_failed message w =
     speak_queued (speakWithBrowser message (w\<lparr>isPlaying := False, currentAudio := None\<rparr>))"

text \<open>
  \<open>audio.onended\<close> (lines 500--526) and \<open>utterance.onend\<close> (lines 589--613): the flag is
  cleared, listening is restarted 1500 ms later, and the oldest queued text is taken off
  the queue to be spoken 500 ms later; what remains of the queue is dropped when it is
  longer than 2.
\<close>

definition audio_onended :: "world \<Rightarrow> world" where
  "audio_onended w =
     (let w1 = w\<lparr>isPlaying := False, currentAudio := None\<rparr>;
          w2 = (if continuousListening w1 \<and> \<not> isListening w1
                then setTimeout StartListening 1500 w1 else w1)
      in case speechQueue w2 of
           [] \<Rightarrow> w2
         | nextText # rest \<Rightarrow>
             setTimeout (SpeakNext nextText) 500
               (w2\<lparr>speechQueue := (if 2 < length rest then [] else rest)\<rparr>))"

definition audio_onerror :: "world \<Rightarrow> world" where
  "audio_onerror w = w\<lparr>isPlaying := False, currentAudio := None\<rparr>"

definition utterance_onend :: "world \<Rightarrow> world" where
  "utterance_onend w =
     (let w1 = w\<lparr>isPlaying := False\<rparr>;
          w2 = (if continuousListening w1 \<and> \<not> isListening w1
                then setTimeout StartListening 1500 w1 else w1)
      in case speechQueue w2 of
           [] \<Rightarrow> w2
         | nextText # rest \<Rightarrow>
             setTimeout (SpeakNext nextText) 500
               (w2\<lparr>speechQueue := (if 2 < length rest then [] else rest)\<rparr>))"

definition utterance_onerror :: "world \<Rightarrow> world" where
  "utterance_onerror w = w\<lparr>isPlaying := False\<rparr>"

text \<open>\<open>handleTouchControl\<close> (lines 248--256).\<close>

definition handleTouchControl :: "world \<Rightarrow> world" where
  "handleTouchControl w = (if isPlaying w then stopAllAudio w else w)"


section \<open>Listening\<close>

text \<open>
  \<open>startContinuousListening\<close> (lines 703--783). On a mobile device the first successful
  start installs the 20 s interval whose callback is \<open>watchdog_tick\<close> below.
\<close>

definition startContinuousListening :: "world \<Rightarrow> world" where
  "startContinuousListening w =
     (if \<not> recognition w then w
      else if isListening w then w
      else
        let w1 = w\<lparr>continuousListening := True\<rparr> in
        case recognition_start w1 of
          (Started, w2) \<Rightarrow>
            (let w3 = w2\<lparr>isListening := True\<rparr> in
             if isMobile (env w3) \<and> \<not> mobileRestartInterval w3
             then w3\<lparr>mobileRestartInterval := True\<rparr> else w3)
        | (AlreadyStarted, w2) \<Rightarrow> w2\<lparr>isListening := True\<rparr>
        | (StartError, w2) \<Rightarrow> setTimeout StartListening 2000 w2)"

text \<open>
  The interval callback (lines 735--767), the guarded start it schedules 200 ms later
  (lines 746--762) and the guarded retry 2000 ms after a start that threw (lines 755--759).
\<close>

definition watchdog_tick :: "world \<Rightarrow> world" where
  "watchdog_tick w =
     (if continuousListening w \<and> \<not> isPlaying w then
        let w1 = (if isListening w then (recognition_stop w)\<lparr>isListening := False\<rparr> else w)
        in setTimeout WatchdogRestart 200 w1
      else w)"

definition watchdog_restart :: "world \<Rightarrow> world" where
  "watchdog_restart w =
     (if continuousListening w \<and> \<not> isPlaying w \<and> \<not> isListening w then
        case recognition_start w of
          (Started, w1) \<Rightarrow> w1\<lparr>isListening := True\<rparr>
        | (AlreadyStarted, w1) \<Rightarrow> setTimeout WatchdogRetry 2000 w1
        | (StartError, w1) \<Rightarrow> setTimeout WatchdogRetry 2000 w1
      else w)"

definition watchdog_retry :: "world \<Rightarrow> world" where
  "watchdog_retry w =
     (if continuousListening w \<and> \<not> isPlaying w \<and> \<not> isListening w
      then startContinuousListening w else w)"

text \<open>
  \<open>askAboutScene\<close> (lines 852--916) sends the question and waits; the answer, or the
  failure, is spoken when the request settles.
\<close>

definition askAboutScene :: "string \<Rightarrow> world \<Rightarrow> world" where
  "askAboutScene question w =
     w\<lparr>pendingQuery := pendingQuery w @ [question], calls := calls w @ [QueryFetch question]\<rparr>"

definition query_answered :: "string \<Rightarrow> world \<Rightarrow> world" where
  "query_answered answer w = speak answer w"

definition query_failed :: "world \<Rightarrow> world" where
  "query_failed w = speak ''Sorry, I had trouble analyzing that. Please try again.'' w"

text \<open>
  \<open>handleVoiceCommand\<close> (lines 819--850). \<open>captureFrame\<close> returns an image exactly when
  the video is ready.
\<close>

definition handleVoiceCommand :: "string \<Rightarrow> world \<Rightarrow> world" where
  "handleVoiceCommand command w =
     (let lowerCommand = toLowerCase command in
      if includes_str lowerCommand ''help'' then
        speak ''I can help you find things. Just ask: Where is my backpack? Do you see a bag? What's in front of me?'' w
      else if includes_str lowerCommand ''stop'' \<or> includes_str lowerCommand ''quiet'' then
        stopAllAudio w
      else
        let question =
              (if includes_str lowerCommand ''where'' \<and>
                  (includes_str lowerCommand ''glasses'' \<or> includes_str lowerCommand ''sunglasses'')
               then ''Where are my glasses or sunglasses? Look for them specifically.''
               else command);
            w1 = w\<lparr>lastCapturedImage := videoReady w\<rparr>
        in if lastCapturedImage w1 then askAboutScene question w1
           else speak ''Unable to capture image. Please make sure the camera is active.'' w1)"

text \<open>The four handlers installed on the recogniser (lines 112--175).\<close>

definition recognition_onstart :: "world \<Rightarrow> world" where
  "recognition_onstart w = w\<lparr>isListening := True\<rparr>"

definition recognition_onresult :: "bool \<Rightarrow> string \<Rightarrow> world \<Rightarrow> world" where
  "recognition_onresult isFinal rawTranscript w =
     (if isFinal then
        let transcript = trim rawTranscript in
        if meaningfulSpeech transcript
        then handleVoiceCommand transcript (recognition_stop w)
        else w
      else w)"

definition recognition_onerror :: "string \<Rightarrow> world \<Rightarrow> world" where
  "recognition_onerror err w =
     (let w1 = w\<lparr>isListening := False\<rparr> in
      if err = ''no-speech'' then
        (if \<not> isPlaying w1 then speak ''I didn't hear anything. Please try again.'' w1 else w1)
      else if err = ''network'' then speak ''Network error. Please check your connection.'' w1
      else w1)"

definition onend_restart :: "world \<Rightarrow> world" where
  "onend_restart w =
     (if continuousListening w \<and> \<not> isPlaying w then startContinuousListening w else w)"

definition recognition_onend :: "world \<Rightarrow> world" where
  "recognition_onend w =
     (let w1 = w\<lparr>isListening := False\<rparr> in
      if continuousListening w1 \<and> \<not> isPlaying w1 then setTimeout OnendRestart 1000 w1 else w1)"


section \<open>Start-up\<close>

text \<open>\<open>startCamera\<close> (lines 178--222), with its awaits run through.\<close>

definition startCamera :: "world \<Rightarrow> world" where
  "startCamera w =
     (case camera (env w) of
        CameraOk \<Rightarrow> w\<lparr>videoReady := True\<rparr>
      | NotAllowedError \<Rightarrow>
          speak ''Camera access denied. Please allow camera permissions and refresh the page.'' w
      | NotFoundError \<Rightarrow> speak ''No camera found. Please check your device has a camera.'' w
      | OtherCameraError \<Rightarrow> speak ''Camera error. Please refresh the page and try again.'' w)"

text \<open>\<open>startApp\<close> (lines 280--297) and \<open>handleStartButtonClick\<close> (lines 260--278).\<close>

definition startApp :: "world \<Rightarrow> world" where
  "startApp w =
     (let w1 = speak ''BlindVision Assistant ready. Just speak to ask me questions.'' w;
          w2 = setTimeout StartCamera 2000 w1
      in if recognition w2 then setTimeout StartListening 3500 w2 else w2)"

definition handleStartButtonClick :: "world \<Rightarrow> world" where
  "handleStartButtonClick w = (if hasStarted w then w else startApp (w\<lparr>hasStarted := True\<rparr>))"

text \<open>
  The constructor (lines 2--49): the fields, then \<open>initializeSpeechRecognition\<close>
  (lines 85--101 decide whether there is a recogniser), \<open>initializeElements\<close> and
  \<open>autoStart\<close>.
\<close>

definition fields :: "platform \<Rightarrow> world" where
  "fields p =
     \<lparr>hasStarted = False, speechQueue = [], isPlaying = False, currentAudio = None,
      recognition = False, isListening = False, lastCapturedImage = False,
      continuousListening = True, mobileRestartInterval = False, env = p,
      videoReady = False, recRunning = False, audioPlaying = [], nextAudio = 0,
      synthUtterance = None, synthPaused = False, pendingTTS = [], pendingQuery = [],
      timers = [], now = 0, calls = []\<rparr>"

definition initializeSpeechRecognition :: "world \<Rightarrow> world" where
  "initializeSpeechRecognition w =
     (case support (env w) of
        Unsupported \<Rightarrow>
          speak ''Sorry, speech recognition is not supported in your browser. Please use Chrome or Safari.'' w
      | ConstructorThrows \<Rightarrow> speak ''Failed to initialize speech recognition.'' w
      | Supported \<Rightarrow> w\<lparr>recognition := True\<rparr>)"

definition initializeElements :: "world \<Rightarrow> world" where
  "initializeElements w = (if startScreen (env w) then w else startApp w)"

definition autoStart :: "world \<Rightarrow> world" where
  "autoStart w = (if isMobile (env w) then w else startApp w)"

definition newBlindVisionApp :: "platform \<Rightarrow> world" where
  "newBlindVisionApp p = autoStart (initializeElements (initializeSpeechRecognition (fields p)))"


section \<open>Events\<close>

text \<open>
  The script is single-threaded: each handler runs to its end before the next event.
  An event is a timer falling due (the earliest pending one), a tick of the mobile
  interval, a touch, a click on the start screen, one of the recogniser's four events,
  the text-to-speech request settling (the oldest in flight), an \<open>Audio\<close> element ending
  or failing, the browser voice ending or failing, or the scene query settling. An
  event that cannot happen in the current state leaves it unchanged: the start screen can
  be clicked only while it is shown (\<open>autoStart\<close> hides it on a desktop, the first click
  on a phone), the recogniser reports only if it was created, an element ends only while
  it plays.

  A click on the start button runs three listeners in turn (lines 57--58 and 68--74): the
  button's and the start screen's, both \<open>handleStartButtonClick\<close>, and then the document's,
  \<open>handleTouchControl\<close>. \<open>Touch\<close> is a \<open>touchstart\<close> or a click anywhere else; a tap on a
  phone is a \<open>touchstart\<close> followed by a click.

  The clock \<open>now\<close> is the due time of the last timer that fired; it orders the pending
  timers as the browser does. Every other event happens at some moment before the next
  timer falls due, and at any later moment when no timer is pending.
\<close>

datatype event =
    Timer
  | WatchdogTick
  | Touch
  | StartClick
  | RecStart
  | RecResult bool string
  | RecError string
  | RecEnd
  | TtsSettled bool
  | AudioEnded nat
  | AudioError nat
  | UtterEnd
  | UtterError
  | QuerySettled "string option"

fun run_callback :: "callback \<Rightarrow> world \<Rightarrow> world" where
  "run_callback (SpeakResume message) w = speak_resume message w"
| "run_callback (SpeakNext message) w = speak message w"
| "run_callback StartCamera w = startCamera w"
| "run_callback StartListening w = startContinuousListening w"
| "run_callback OnendRestart w = onend_restart w"
| "run_callback WatchdogRestart w = watchdog_restart w"
| "run_callback WatchdogRetry w = watchdog_retry w"

fun step :: "event \<Rightarrow> world \<Rightarrow> world" where
  "step Timer w =
     (case timers w of
        [] \<Rightarrow> w
      | (due, cb) # rest \<Rightarrow> run_callback cb (w\<lparr>timers := rest, now := max (now w) due\<rparr>))"
| "step WatchdogTick w = (if mobileRestartInterval w then watchdog_tick w else w)"
| "step Touch w = handleTouchControl w"
| "step StartClick w =
     (if startScreen (env w) \<and> isMobile (env w) \<and> \<not> hasStarted w
      then handleTouchControl (handleStartButtonClick (handleStartButtonClick w))
      else w)"
| "step RecStart w = (if recognition w then recognition_onstart w else w)"
| "step (RecResult isFinal rawTranscript) w =
     (if recognition w then recognition_onresult isFinal rawTranscript w else w)"
| "step (RecError err) w = (if recognition w then recognition_onerror err w else w)"
| "step RecEnd w = (if recognition w then recognition_onend (w\<lparr>recRunning := False\<rparr>) else w)"
| "step (TtsSettled ok) w =
     (case pendingTTS w of
        [] \<Rightarrow> w
      | message # rest \<Rightarrow>
          (if ok then elevenLabs_playing (w\<lparr>pendingTTS := rest\<rparr>)
           else elevenLabs_failed message (w\<lparr>pendingTTS := rest\<rparr>)))"
| "step (AudioEnded a) w =
     (if a \<in> set (audioPlaying w)
      then audio_onended (w\<lparr>audioPlaying := removeAll a (audioPlaying w)\<rparr>) else w)"
| "step (AudioError a) w =
     (if a \<in> set (audioPlaying w)
      then audio_onerror (w\<lparr>audioPlaying := removeAll a (audioPlaying w)\<rparr>) else w)"
| "step UtterEnd w =
     (case synthUtterance w of
        None \<Rightarrow> w
      | Some u \<Rightarrow> utterance_onend (w\<lparr>synthUtterance := None\<rparr>))"
| "step UtterError w =
     (case synthUtterance w of
        None \<Rightarrow> w
      | Some u \<Rightarrow> utterance_onerror (w\<lparr>synthUtterance := None\<rparr>))"
| "step (QuerySettled result) w =
     (case pendingQuery w of
        [] \<Rightarrow> w
      | question # rest \<Rightarrow>
          (case result of
             Some answer \<Rightarrow> query_answered answer (w\<lparr>pendingQuery := rest\<rparr>)
           | None \<Rightarrow> query_failed (w\<lparr>pendingQuery := rest\<rparr>)))"

definition run :: "event list \<Rightarrow> world \<Rightarrow> world" where
  "run es w = fold step es w"


section \<open>The turn state, and the scenarios the theorems are checked on\<close>

text \<open>
  Modelled from the spec: the code has no \<open>TurnState\<close>; sections 3 and 9 of the
  specification describe it as the collapse of the flags \<open>isPlaying\<close> and \<open>isListening\<close>
  and of the query in flight. \<open>Speaking\<close> is playback flagged active, \<open>Processing\<close> a
  query in flight with nothing playing, \<open>Listening\<close> the listening flag alone.
\<close>

datatype TurnState = Idle | Listening | Processing | Speaking

definition turnState :: "world \<Rightarrow> TurnState" where
  "turnState w =
     (if isPlaying w then Speaking
      else if pendingQuery w \<noteq> [] then Processing
      else if isListening w then Listening
      else Idle)"

text \<open>
  A desktop browser with a recogniser, the shipped start screen, an ElevenLabs key and a
  working camera, and the same on a phone. Every scenario is a run of events from the
  constructor:
  \<^item> \<open>launched\<close>: the application right after its constructor;
  \<^item> \<open>welcome_playing\<close>: the 300 ms timer has fired and the welcome audio plays;
  \<^item> \<open>welcome_mic_open\<close>: the camera timer (2000 ms) and the listening timer (3500 ms)
    have fired while the welcome audio is still playing;
  \<^item> \<open>listening\<close>: the welcome audio has ended and the recogniser runs;
  \<^item> \<open>processing\<close>: "what do you see" was accepted, the recogniser ended and was
    restarted by its own end handler, the query is still in flight;
  \<^item> \<open>help_playing\<close>: then "help me" was accepted, the help text plays, and the answer
    to the first question has arrived and waits in the queue;
  \<^item> \<open>phone_listening\<close>, \<open>phone_processing\<close>: the phone after a tap on the start button, listening
    with the interval installed, and then with a query in flight and the recogniser ended;
  \<^item> \<open>touched_during_fetch\<close>: on a desktop whose camera is denied, the screen is touched
    while the welcome audio is still being fetched.
\<close>

definition desktop :: platform where
  "desktop =
     \<lparr>support = Supported, startScreen = True, isMobile = False, hasSynth = True,
      elevenLabsKeySet = True, camera = CameraOk, startFault = False\<rparr>"

definition phone :: platform where
  "phone = desktop\<lparr>isMobile := True\<rparr>"

definition launched :: world where
  "launched = newBlindVisionApp desktop"

definition welcome_playing :: world where
  "welcome_playing = run [Timer, TtsSettled True] launched"

definition welcome_mic_open :: world where
  "welcome_mic_open = run [Timer, Timer] welcome_playing"

definition listening :: world where
  "listening = run [Timer, TtsSettled True, Timer, AudioEnded 0, Timer, Timer, RecStart] launched"

definition processing :: world where
  "processing = run [RecResult True ''what do you see'', RecEnd, Timer, RecStart] listening"

definition help_playing :: world where
  "help_playing =
     run [RecResult True ''help me'', RecEnd, Timer, TtsSettled True,
          QuerySettled (Some ''a chair ahead'')] processing"

definition phone_listening :: world where
  "phone_listening =
     run [Touch, StartClick, Timer, TtsSettled True, Timer, AudioEnded 0, Timer, Timer, RecStart]
       (newBlindVisionApp phone)"

definition phone_processing :: world where
  "phone_processing = run [RecResult True ''what do you see'', RecEnd] phone_listening"

definition touched_during_fetch :: world where
  "touched_during_fetch =
     run [Timer, Touch] (newBlindVisionApp (desktop\<lparr>camera := NotAllowedError\<rparr>))"

text \<open>
  The recogniser has never been started and nothing can start it: there is no recogniser
  object, no interval, no pending watchdog start, and no start call in the log.
\<close>

definition neverStarted :: "world \<Rightarrow> bool" where
  "neverStarted w =
     (\<not> recognition w \<and> \<not> mobileRestartInterval w \<and> \<not> recRunning w \<and>
      RecognitionStart \<notin> set (calls w) \<and> WatchdogRestart \<notin> snd ` set (timers w))"


section \<open>Evaluating the scenarios\<close>

lemmas handler_defs =
  setTimeout_def recognition_stop_def recognition_start_def stopAllAudio_def speak_def
  speakWithBrowser_def speak_queued_def speak_resume_def elevenLabs_playing_def
  elevenLabs_failed_def audio_onended_def audio_onerror_def utterance_onend_def
  utterance_onerror_def handleTouchControl_def startContinuousListening_def
  watchdog_tick_def watchdog_restart_def watchdog_retry_def askAboutScene_def
  query_answered_def query_failed_def recognition_onstart_def
  recognition_onerror_def onend_restart_def recognition_onend_def startCamera_def startApp_def
  handleStartButtonClick_def fields_def initializeSpeechRecognition_def initializeElements_def
  autoStart_def newBlindVisionApp_def run_def Let_def

lemma split_from_length: "length (split_from cur s) = Suc (count_list s CHR '' '')"
  by (induction s arbitrary: cur) simp_all

lemma split_space_length: "length (split_space s) = Suc (count_list s CHR '' '')"
  by (simp add: split_space_def split_from_length)

lemma what_do_you_see:
  "recognition_onresult True ''what do you see'' w =
     (if videoReady w
      then askAboutScene ''what do you see'' ((recognition_stop w)\<lparr>lastCapturedImage := True\<rparr>)
      else speak ''Unable to capture image. Please make sure the camera is active.''
             ((recognition_stop w)\<lparr>lastCapturedImage := False\<rparr>))"
proof -
  have t: "trim ''what do you see'' = ''what do you see''" by code_simp
  have m: "meaningfulSpeech ''what do you see''" by code_simp
  have l: "toLowerCase ''what do you see'' = ''what do you see''" by code_simp
  show ?thesis
    by (simp add: recognition_onresult_def t m handleVoiceCommand_def l Let_def recognition_stop_def)
qed

lemma help_me:
  "recognition_onresult True ''help me'' w =
     speak ''I can help you find things. Just ask: Where is my backpack? Do you see a bag? What's in front of me?''
       (recognition_stop w)"
proof -
  have t: "trim ''help me'' = ''help me''" by code_simp
  have m: "meaningfulSpeech ''help me''" by code_simp
  have l: "toLowerCase ''help me'' = ''help me''" by code_simp
  show ?thesis
    by (simp add: recognition_onresult_def t m handleVoiceCommand_def l Let_def)
qed

lemma launched_value:
  "launched =
     \<lparr>hasStarted = False, speechQueue = [], isPlaying = True, currentAudio = None,
      recognition = True, isListening = False, lastCapturedImage = False,
      continuousListening = True, mobileRestartInterval = False, env = desktop,
      videoReady = False, recRunning = False, audioPlaying = [], nextAudio = 0,
      synthUtterance = None, synthPaused = True, pendingTTS = [], pendingQuery = [],
      timers = [(300, SpeakResume ''BlindVision Assistant ready. Just speak to ask me questions.''),
                (2000, StartCamera), (3500, StartListening)],
      now = 0, calls = [SynthCancel, SynthPause]\<rparr>"
  by (simp add: launched_def desktop_def handler_defs)

lemma welcome_playing_value:
  "welcome_playing =
     \<lparr>hasStarted = False, speechQueue = [], isPlaying = True, currentAudio = Some 0,
      recognition = True, isListening = False, lastCapturedImage = False,
      continuousListening = True, mobileRestartInterval = False, env = desktop,
      videoReady = False, recRunning = False, audioPlaying = [0], nextAudio = 1,
      synthUtterance = None, synthPaused = True, pendingTTS = [], pendingQuery = [],
      timers = [(2000, StartCamera), (3500, StartListening)],
      now = 300,
      calls = [SynthCancel, SynthPause,
               TtsFetch ''BlindVision Assistant ready. Just speak to ask me questions.'',
               AudioPlay 0]\<rparr>"
  by (simp add: welcome_playing_def launched_value desktop_def handler_defs)

lemma welcome_mic_open_value:
  "welcome_mic_open =
     \<lparr>hasStarted = False, speechQueue = [], isPlaying = True, currentAudio = Some 0,
      recognition = True, isListening = True, lastCapturedImage = False,
      continuousListening = True, mobileRestartInterval = False, env = desktop,
      videoReady = True, recRunning = True, audioPlaying = [0], nextAudio = 1,
      synthUtterance = None, synthPaused = True, pendingTTS = [], pendingQuery = [],
      timers = [], now = 3500,
      calls = [SynthCancel, SynthPause,
               TtsFetch ''BlindVision Assistant ready. Just speak to ask me questions.'',
               AudioPlay 0, RecognitionStart]\<rparr>"
  by (simp add: welcome_mic_open_def welcome_playing_value desktop_def handler_defs)

lemma listening_value:
  "listening =
     \<lparr>hasStarted = False, speechQueue = [], isPlaying = False, currentAudio = None,
      recognition = True, isListening = True, lastCapturedImage = False,
      continuousListening = True, mobileRestartInterval = False, env = desktop,
      videoReady = True, recRunning = True, audioPlaying = [], nextAudio = 1,
      synthUtterance = None, synthPaused = True, pendingTTS = [], pendingQuery = [],
      timers = [], now = 3500,
      calls = [SynthCancel, SynthPause,
               TtsFetch ''BlindVision Assistant ready. Just speak to ask me questions.'',
               AudioPlay 0, RecognitionStart]\<rparr>"
  by (simp add: listening_def launched_value desktop_def handler_defs)

lemma processing_value:
  "processing =
     \<lparr>hasStarted = False, speechQueue = [], isPlaying = False, currentAudio = None,
      recognition = True, isListening = True, lastCapturedImage = True,
      continuousListening = True, mobileRestartInterval = False, env = desktop,
      videoReady = True, recRunning = True, audioPlaying = [], nextAudio = 1,
      synthUtterance = None, synthPaused = True, pendingTTS = [],
      pendingQuery = [''what do you see''], timers = [], now = 4500,
      calls = [SynthCancel, SynthPause,
               TtsFetch ''BlindVision Assistant ready. Just speak to ask me questions.'',
               AudioPlay 0, RecognitionStart, RecognitionStop, QueryFetch ''what do you see'',
               RecognitionStart]\<rparr>"
  by (simp add: processing_def listening_value desktop_def what_do_you_see handler_defs)

lemma help_playing_value:
  "help_playing =
     \<lparr>hasStarted = False, speechQueue = [''a chair ahead''], isPlaying = True,
      currentAudio = Some 1, recognition = True, isListening = False, lastCapturedImage = True,
      continuousListening = True, mobileRestartInterval = False, env = desktop,
      videoReady = True, recRunning = False, audioPlaying = [1], nextAudio = 2,
      synthUtterance = None, synthPaused = True, pendingTTS = [], pendingQuery = [],
      timers = [], now = 4800,
      calls = [SynthCancel, SynthPause,
               TtsFetch ''BlindVision Assistant ready. Just speak to ask me questions.'',
               AudioPlay 0, RecognitionStart, RecognitionStop, QueryFetch ''what do you see'',
               RecognitionStart, RecognitionStop, RecognitionStop, SynthCancel, SynthPause,
               TtsFetch ''I can help you find things. Just ask: Where is my backpack? Do you see a bag? What's in front of me?'',
               AudioPlay 1]\<rparr>"
  by (simp add: help_playing_def processing_value desktop_def help_me handler_defs)

lemma phone_listening_value:
  "phone_listening =
     \<lparr>hasStarted = True, speechQueue = [], isPlaying = False, currentAudio = None,
      recognition = True, isListening = True, lastCapturedImage = False,
      continuousListening = True, mobileRestartInterval = True, env = phone,
      videoReady = True, recRunning = True, audioPlaying = [], nextAudio = 1,
      synthUtterance = None, synthPaused = True, pendingTTS = [], pendingQuery = [],
      timers = [], now = 3500,
      calls = [SynthCancel, SynthPause, SynthCancel, SynthPause,
               TtsFetch ''BlindVision Assistant ready. Just speak to ask me questions.'',
               AudioPlay 0, RecognitionStart]\<rparr>"
  by (simp add: phone_listening_def phone_def desktop_def handler_defs)

lemma phone_processing_value:
  "phone_processing =
     \<lparr>hasStarted = True, speechQueue = [], isPlaying = False, currentAudio = None,
      recognition = True, isListening = False, lastCapturedImage = True,
      continuousListening = True, mobileRestartInterval = True, env = phone,
      videoReady = True, recRunning = False, audioPlaying = [], nextAudio = 1,
      synthUtterance = None, synthPaused = True, pendingTTS = [],
      pendingQuery = [''what do you see''], timers = [(4500, OnendRestart)], now = 3500,
      calls = [SynthCancel, SynthPause, SynthCancel, SynthPause,
               TtsFetch ''BlindVision Assistant ready. Just speak to ask me questions.'',
               AudioPlay 0, RecognitionStart, RecognitionStop, QueryFetch ''what do you see'']\<rparr>"
  by (simp add: phone_processing_def phone_listening_value phone_def desktop_def
      what_do_you_see handler_defs)

lemma touched_during_fetch_value:
  "touched_during_fetch =
     \<lparr>hasStarted = False, speechQueue = [], isPlaying = False, currentAudio = None,
      recognition = True, isListening = False, lastCapturedImage = False,
      continuousListening = True, mobileRestartInterval = False,
      env = desktop\<lparr>camera := NotAllowedError\<rparr>,
      videoReady = False, recRunning = False, audioPlaying = [], nextAudio = 0,
      synthUtterance = None, synthPaused = True,
      pendingTTS = [''BlindVision Assistant ready. Just speak to ask me questions.''],
      pendingQuery = [], timers = [(2000, StartCamera), (3500, StartListening)], now = 300,
      calls = [SynthCancel, SynthPause,
               TtsFetch ''BlindVision Assistant ready. Just speak to ask me questions.'',
               SynthCancel, SynthPause]\<rparr>"
  by (simp add: touched_during_fetch_def desktop_def handler_defs)


section \<open>Facts about the handlers\<close>

lemma schedule_set: "set (schedule t ts) = insert t (set ts)"
  by (induction ts) auto

lemma setTimeout_simps [simp]:
  "timers (setTimeout cb d w) = schedule (now w + d, cb) (timers w)"
  "continuousListening (setTimeout cb d w) = continuousListening w"
  "recognition (setTimeout cb d w) = recognition w"
  "mobileRestartInterval (setTimeout cb d w) = mobileRestartInterval w"
  "recRunning (setTimeout cb d w) = recRunning w"
  "calls (setTimeout cb d w) = calls w"
  "isPlaying (setTimeout cb d w) = isPlaying w"
  "isListening (setTimeout cb d w) = isListening w"
  "speechQueue (setTimeout cb d w) = speechQueue w"
  "env (setTimeout cb d w) = env w"
  "now (setTimeout cb d w) = now w"
  by (simp_all add: setTimeout_def)

text \<open>While \<open>isPlaying\<close> is set, \<open>speak\<close> only appends to the queue.\<close>

lemma speak_while_playing:
  "isPlaying w \<Longrightarrow> speak message w = w\<lparr>speechQueue := speechQueue w @ [message]\<rparr>"
  by (simp add: speak_def)

lemma fold_speak_while_playing:
  "isPlaying w \<Longrightarrow> fold speak messages w = w\<lparr>speechQueue := speechQueue w @ messages\<rparr>"
proof (induction messages arbitrary: w)
  case Nil
  then show ?case by simp
next
  case (Cons m ms)
  then show ?case by (simp add: speak_while_playing)
qed

lemma audio_onended_queue:
  "speechQueue (audio_onended w) =
     (case speechQueue w of [] \<Rightarrow> [] | nextText # rest \<Rightarrow> if 2 < length rest then [] else rest)"
  by (simp add: audio_onended_def Let_def split: list.splits)

lemma utterance_onend_queue:
  "speechQueue (utterance_onend w) =
     (case speechQueue w of [] \<Rightarrow> [] | nextText # rest \<Rightarrow> if 2 < length rest then [] else rest)"
  by (simp add: utterance_onend_def Let_def split: list.splits)

lemma audio_onended_next:
  "speechQueue w = nextText # rest \<Longrightarrow>
     (now w + 500, SpeakNext nextText) \<in> set (timers (audio_onended w))"
  by (simp add: audio_onended_def Let_def schedule_set)

text \<open>The port log only grows, and speaking never starts the recogniser.\<close>

lemma calls_stopAllAudio: "\<exists>more. calls (stopAllAudio w) = calls w @ more"
  by (simp add: stopAllAudio_def Let_def split: option.splits)

lemma calls_speak: "\<exists>more. calls (speak m w) = calls w @ more"
  by (simp add: speak_def Let_def stopAllAudio_def recognition_stop_def split: option.splits)

lemma calls_handleVoiceCommand: "\<exists>more. calls (handleVoiceCommand c w) = calls w @ more"
  using calls_speak [of _ w] calls_stopAllAudio [of w]
    calls_speak [of _ "w\<lparr>lastCapturedImage := False\<rparr>"]
  by (simp add: handleVoiceCommand_def Let_def askAboutScene_def)

lemma recRunning_stopAllAudio [simp]: "recRunning (stopAllAudio w) = recRunning w"
  by (simp add: stopAllAudio_def Let_def split: option.splits)

lemma recRunning_speak: "\<not> recRunning w \<Longrightarrow> \<not> recRunning (speak m w)"
  by (simp add: speak_def Let_def recognition_stop_def)

lemma recRunning_handleVoiceCommand:
  "\<not> recRunning w \<Longrightarrow> \<not> recRunning (handleVoiceCommand c w)"
  by (simp add: handleVoiceCommand_def Let_def recRunning_speak askAboutScene_def)


section \<open>Facts about the string operations\<close>

text \<open>The operations on a transcript with leading white space, capitals and an accent.\<close>

lemma string_operations_example:
  "trim ([CHR 0xA0, CHR 0x09] @ ''What NOW '') = ''What NOW'' \<and>
   toLowerCase (''What NOW'' @ [CHR 0xC9]) = ''what now'' @ [CHR 0xE9] \<and>
   transcriptWords ''What  NOW'' = [''what'', [], ''now'']"
  by code_simp

lemma space_is_white [simp]: "isWhiteSpace CHR '' ''"
  by (simp add: isWhiteSpace_def)

lemma toLowerChar_space [simp]: "toLowerChar CHR '' '' = CHR '' ''"
  by (simp add: toLowerChar_def)






















section \<open>Two invariants of every run\<close>

text \<open>No handler ever clears \<open>continuousListening\<close>.\<close>

lemma continuous_stopAllAudio [simp]: "continuousListening (stopAllAudio w) = continuousListening w"
  by (simp add: stopAllAudio_def Let_def split: option.splits)

lemma continuous_speak [simp]: "continuousListening (speak m w) = continuousListening w"
  by (simp add: speak_def Let_def recognition_stop_def)

lemma continuous_speakWithBrowser [simp]:
  "continuousListening (speakWithBrowser m w) = continuousListening w"
  by (simp add: speakWithBrowser_def)

lemma continuous_speak_queued [simp]:
  "continuousListening (speak_queued w) = continuousListening w"
  by (simp add: speak_queued_def split: list.splits)

lemma continuous_startContinuousListening:
  "continuousListening w \<Longrightarrow> continuousListening (startContinuousListening w)"
  by (simp add: startContinuousListening_def recognition_start_def Let_def)

lemma continuous_handleVoiceCommand [simp]:
  "continuousListening (handleVoiceCommand c w) = continuousListening w"
  by (simp add: handleVoiceCommand_def Let_def askAboutScene_def)

lemma continuous_callback:
  "continuousListening w \<Longrightarrow> continuousListening (run_callback cb w)"
  by (cases cb)
    (simp_all add: speak_resume_def startCamera_def continuous_startContinuousListening
      onend_restart_def watchdog_restart_def watchdog_retry_def recognition_start_def Let_def
      split: camera_outcome.splits)

lemma continuous_step: "continuousListening w \<Longrightarrow> continuousListening (step e w)"
proof (cases e)
  case Timer
  assume "continuousListening w"
  then show ?thesis using Timer
    by (auto split: list.splits intro!: continuous_callback)
next
  case StartClick
  assume "continuousListening w"
  then show ?thesis using StartClick
    by (simp add: handleTouchControl_def handleStartButtonClick_def startApp_def Let_def)
qed (simp_all add: watchdog_tick_def recognition_stop_def handleTouchControl_def
      recognition_onstart_def recognition_onresult_def recognition_onerror_def
      recognition_onend_def elevenLabs_playing_def elevenLabs_failed_def audio_onended_def
      audio_onerror_def utterance_onend_def utterance_onerror_def query_answered_def
      query_failed_def Let_def split: list.splits option.splits)

lemma continuous_run: "continuousListening w \<Longrightarrow> continuousListening (run es w)"
  unfolding run_def by (induction es arbitrary: w) (simp_all add: continuous_step)

lemma continuous_new: "continuousListening (newBlindVisionApp p)"
  by (simp add: newBlindVisionApp_def autoStart_def initializeElements_def startApp_def
      initializeSpeechRecognition_def fields_def Let_def split: recognition_support.splits)

text \<open>Without a recogniser object, nothing ever starts recognition.\<close>

lemma neverStarted_setTimeout:
  "cb \<noteq> WatchdogRestart \<Longrightarrow> neverStarted w \<Longrightarrow> neverStarted (setTimeout cb d w)"
  by (auto simp: neverStarted_def schedule_set)

lemma neverStarted_stopAllAudio: "neverStarted w \<Longrightarrow> neverStarted (stopAllAudio w)"
  by (simp add: neverStarted_def stopAllAudio_def Let_def split: option.splits)

lemma neverStarted_speak: "neverStarted w \<Longrightarrow> neverStarted (speak m w)"
  by (auto simp: neverStarted_def speak_def stopAllAudio_def Let_def schedule_set
      split: option.splits)

lemma neverStarted_speakWithBrowser: "neverStarted w \<Longrightarrow> neverStarted (speakWithBrowser m w)"
  by (simp add: neverStarted_def speakWithBrowser_def)

lemma neverStarted_speak_queued: "neverStarted w \<Longrightarrow> neverStarted (speak_queued w)"
  by (auto simp: neverStarted_def speak_queued_def schedule_set split: list.splits)

lemma neverStarted_startContinuousListening:
  "neverStarted w \<Longrightarrow> startContinuousListening w = w"
  by (simp add: neverStarted_def startContinuousListening_def)

lemma neverStarted_callback:
  assumes "neverStarted w" and "cb \<noteq> WatchdogRestart"
  shows "neverStarted (run_callback cb w)"
proof (cases cb)
  case (SpeakResume m)
  have "neverStarted (w\<lparr>pendingTTS := pendingTTS w @ [m], calls := calls w @ [TtsFetch m]\<rparr>)"
    using assms(1) by (simp add: neverStarted_def)
  then show ?thesis
    using SpeakResume assms(1)
    by (simp add: speak_resume_def neverStarted_speak_queued neverStarted_speakWithBrowser)
next
  case (SpeakNext m)
  then show ?thesis using assms(1) by (simp add: neverStarted_speak)
next
  case StartCamera
  have "neverStarted (w\<lparr>videoReady := True\<rparr>)"
    using assms(1) by (simp add: neverStarted_def)
  then show ?thesis
    using StartCamera assms(1)
    by (simp add: startCamera_def neverStarted_speak split: camera_outcome.splits)
next
  case StartListening
  then show ?thesis using assms(1) by (simp add: neverStarted_startContinuousListening)
next
  case OnendRestart
  then show ?thesis
    using assms(1) by (simp add: onend_restart_def neverStarted_startContinuousListening)
next
  case WatchdogRestart
  then show ?thesis using assms(2) by simp
next
  case WatchdogRetry
  then show ?thesis
    using assms(1) by (simp add: watchdog_retry_def neverStarted_startContinuousListening)
qed

lemma neverStarted_startApp: "neverStarted w \<Longrightarrow> neverStarted (startApp w)"
  by (auto simp: startApp_def Let_def neverStarted_def [of w]
      intro!: neverStarted_setTimeout neverStarted_speak)

lemma neverStarted_handleStartButtonClick:
  assumes "neverStarted w"
  shows "neverStarted (handleStartButtonClick w)"
proof -
  have "neverStarted (w\<lparr>hasStarted := True\<rparr>)"
    using assms by (simp add: neverStarted_def)
  then show ?thesis
    using assms by (simp add: handleStartButtonClick_def neverStarted_startApp)
qed

lemma neverStarted_step:
  assumes "neverStarted w"
  shows "neverStarted (step e w)"
proof (cases e)
  case Timer
  show ?thesis
  proof (cases "timers w")
    case Nil
    then show ?thesis using Timer assms by simp
  next
    case (Cons t rest)
    obtain due cb where t: "t = (due, cb)" by (cases t)
    have cb: "cb \<noteq> WatchdogRestart"
      using assms Cons t by (auto simp: neverStarted_def)
    have "neverStarted (w\<lparr>timers := rest, now := max (now w) due\<rparr>)"
      using assms Cons by (auto simp: neverStarted_def)
    then show ?thesis
      using Timer Cons t cb by (simp add: neverStarted_callback)
  qed
next
  case WatchdogTick
  then show ?thesis using assms by (simp add: neverStarted_def)
next
  case Touch
  then show ?thesis using assms by (simp add: handleTouchControl_def neverStarted_stopAllAudio)
next
  case StartClick
  have "neverStarted (handleStartButtonClick (handleStartButtonClick w))"
    using assms by (intro neverStarted_handleStartButtonClick)
  then show ?thesis
    using StartClick assms by (simp add: handleTouchControl_def neverStarted_stopAllAudio)
next
  case RecStart
  then show ?thesis using assms by (simp add: neverStarted_def)
next
  case (RecResult f t)
  then show ?thesis using assms by (simp add: neverStarted_def)
next
  case (RecError k)
  then show ?thesis using assms by (simp add: neverStarted_def)
next
  case RecEnd
  then show ?thesis using assms by (simp add: neverStarted_def)
next
  case (TtsSettled ok)
  show ?thesis
  proof (cases "pendingTTS w")
    case Nil
    then show ?thesis using TtsSettled assms by simp
  next
    case (Cons m rest)
    have a: "neverStarted (w\<lparr>pendingTTS := rest, nextAudio := Suc (nextAudio w),
               currentAudio := Some (nextAudio w), isPlaying := True,
               audioPlaying := audioPlaying w @ [nextAudio w],
               calls := calls w @ [AudioPlay (nextAudio w)]\<rparr>)"
      using assms by (simp add: neverStarted_def)
    have b: "neverStarted (w\<lparr>pendingTTS := rest, isPlaying := False, currentAudio := None\<rparr>)"
      using assms by (simp add: neverStarted_def)
    show ?thesis
      using TtsSettled Cons neverStarted_speak_queued [OF a]
        neverStarted_speak_queued [OF neverStarted_speakWithBrowser [OF b]]
      by (simp add: elevenLabs_playing_def elevenLabs_failed_def Let_def)
  qed
next
  case (AudioEnded a)
  then show ?thesis
    using assms
    by (auto simp: audio_onended_def Let_def neverStarted_def schedule_set split: list.splits)
next
  case (AudioError a)
  then show ?thesis using assms by (simp add: audio_onerror_def neverStarted_def)
next
  case UtterEnd
  then show ?thesis
    using assms
    by (auto simp: utterance_onend_def Let_def neverStarted_def schedule_set
        split: list.splits option.splits)
next
  case UtterError
  then show ?thesis
    using assms by (simp add: utterance_onerror_def neverStarted_def split: option.splits)
next
  case (QuerySettled r)
  show ?thesis
  proof (cases "pendingQuery w")
    case Nil
    then show ?thesis using QuerySettled assms by simp
  next
    case (Cons q rest)
    have "neverStarted (w\<lparr>pendingQuery := rest\<rparr>)"
      using assms by (simp add: neverStarted_def)
    then show ?thesis
      using QuerySettled Cons
      by (simp add: query_answered_def query_failed_def neverStarted_speak split: option.splits)
  qed
qed

lemma neverStarted_run: "neverStarted w \<Longrightarrow> neverStarted (run es w)"
  unfolding run_def by (induction es arbitrary: w) (simp_all add: neverStarted_step)

lemma neverStarted_new:
  assumes "support p \<noteq> Supported"
  shows "neverStarted (newBlindVisionApp p)"
proof -
  have f: "neverStarted (fields p)" by (simp add: neverStarted_def fields_def)
  have e: "env (fields p) = p" by (simp add: fields_def)
  have i: "neverStarted (initializeSpeechRecognition (fields p))"
    using assms f e
    by (cases "support p") (simp_all add: initializeSpeechRecognition_def neverStarted_speak)
  show ?thesis
    by (simp add: newBlindVisionApp_def autoStart_def initializeElements_def
        neverStarted_startApp i)
qed


section \<open>C1: microphone and playback\<close>

text \<open>
  C1 says that the recogniser and audio playback are never active together. The code
  breaks this at launch. \<open>startApp\<close> speaks the welcome message and sets a timer that calls
  \<open>startContinuousListening\<close> after 3500 ms; that function tests \<open>recognition\<close> and
  \<open>isListening\<close> but not \<open>isPlaying\<close>. The welcome audio starts after the 300 ms wait and
  the text-to-speech request, so it is still playing when the timer fires: after the
  camera timer and the listening timer, playback is flagged and an \<open>Audio\<close> element
  plays while the recogniser has been started and runs.
\<close>

theorem mic_opened_during_welcome:
  "turnState welcome_playing = Speaking \<and>
   audioPlaying welcome_playing = [0] \<and> \<not> recRunning welcome_playing \<and>
   turnState (run [Timer, Timer] welcome_playing) = Speaking \<and>
   audioPlaying (run [Timer, Timer] welcome_playing) = [0] \<and>
   recRunning (run [Timer, Timer] welcome_playing) \<and>
   isListening (run [Timer, Timer] welcome_playing) \<and>
   calls (run [Timer, Timer] welcome_playing) = calls welcome_playing @ [RecognitionStart]"
  using welcome_mic_open_value [unfolded welcome_mic_open_def]
  by (simp add: welcome_playing_value turnState_def)

text \<open>
  The same happens after every playback that leaves a queued text: \<open>audio.onended\<close> sets
  the restart timer to 1500 ms and the next \<open>speak\<close> to 500 ms, and the restart timer does
  not look at \<open>isPlaying\<close> when it fires (the timer of \<open>recognition.onend\<close> and the mobile
  interval do). Here the queued answer plays as element 2 when the recogniser starts,
  1500 ms after the help text ended.
\<close>

lemma mic_opened_during_queued_answer:
  "turnState help_playing = Speaking \<and>
   audioPlaying (run [AudioEnded 1, Timer, Timer, TtsSettled True, Timer] help_playing) = [2] \<and>
   isPlaying (run [AudioEnded 1, Timer, Timer, TtsSettled True, Timer] help_playing) \<and>
   recRunning (run [AudioEnded 1, Timer, Timer, TtsSettled True, Timer] help_playing) \<and>
   now (run [AudioEnded 1, Timer, Timer, TtsSettled True, Timer] help_playing)
     = now help_playing + 1500"
  by (simp add: help_playing_value turnState_def desktop_def handler_defs)


section \<open>C2: the touch interrupt\<close>





section \<open>C3: the bound on the speech queue\<close>

text \<open>
  C3, as the code has it: while playback is flagged, \<open>speak\<close> appends without any bound,
  so a run of enqueues leaves every text in the queue in order. The bound is applied
  when a playback ends: the handler takes the oldest text off the queue to be spoken
  500 ms later and drops what remains if more than 2 texts remain, so it leaves at most
  2 texts.
\<close>

theorem queue_capped_at_dequeue:
  assumes "isPlaying w"
  shows "speechQueue (fold speak messages w) = speechQueue w @ messages \<and>
         length (speechQueue (audio_onended w)) \<le> 2 \<and>
         length (speechQueue (utterance_onend w)) \<le> 2 \<and>
         (case speechQueue w of
            [] \<Rightarrow> speechQueue (audio_onended w) = []
          | nextText # rest \<Rightarrow>
              (now w + 500, SpeakNext nextText) \<in> set (timers (audio_onended w)) \<and>
              speechQueue (audio_onended w) = (if 2 < length rest then [] else rest))"
  using assms
  by (simp add: fold_speak_while_playing audio_onended_queue utterance_onend_queue
      audio_onended_next split: list.splits)

theorem queue_capped_at_dequeue_witness:
  "isPlaying welcome_playing \<and>
   speechQueue (fold speak [''one'', ''two'', ''three'', ''four''] welcome_playing)
     = [''one'', ''two'', ''three'', ''four''] \<and>
   speechQueue (audio_onended (fold speak [''one'', ''two'', ''three'', ''four''] welcome_playing))
     = []"
proof -
  have p: "isPlaying welcome_playing" by (simp add: welcome_playing_value)
  have q: "speechQueue welcome_playing = []" by (simp add: welcome_playing_value)
  have f: "speechQueue (fold speak [''one'', ''two'', ''three'', ''four''] welcome_playing)
             = [''one'', ''two'', ''three'', ''four'']"
    by (simp only: fold_speak_while_playing [OF p]) (simp add: q)
  have e: "speechQueue
             (audio_onended (fold speak [''one'', ''two'', ''three'', ''four''] welcome_playing))
             = []"
    by (simp only: audio_onended_queue f) simp
  from queue_capped_at_dequeue [OF p, of "[''one'', ''two'', ''three'', ''four'']"]
  have "speechQueue (fold speak [''one'', ''two'', ''three'', ''four''] welcome_playing)
          = speechQueue welcome_playing @ [''one'', ''two'', ''three'', ''four'']"
    by blast
  with p q e show ?thesis by simp
qed

text \<open>
  C3 as stated fails: three enqueues on an empty queue during playback leave three
  texts, the oldest first; nothing was cleared.
\<close>

theorem enqueue_exceeds_cap:
  "turnState welcome_playing = Speaking \<and> speechQueue welcome_playing = [] \<and>
   speechQueue (speak ''three'' (speak ''two'' (speak ''one'' welcome_playing)))
     = [''one'', ''two'', ''three'']"
  by (simp add: welcome_playing_value turnState_def speak_def)


section \<open>C4: transcripts outside the listening state\<close>

text \<open>
  C4, as the code has it: \<open>recognition.onresult\<close> consults the filter and nothing else. In
  every state, a final transcript the filter lets through stops the recogniser and is
  handled as a command; a transcript the filter rejects, or one that is not final, leaves
  the state as it was.
\<close>

theorem final_transcript_filtered_in_any_state:
  "(if isFinal \<and> meaningfulSpeech (trim raw)
    then recognition_onresult isFinal raw w = handleVoiceCommand (trim raw) (recognition_stop w) \<and>
         (\<exists>more. calls (recognition_onresult isFinal raw w) = calls w @ RecognitionStop # more) \<and>
         \<not> recRunning (recognition_onresult isFinal raw w)
    else recognition_onresult isFinal raw w = w)"
proof (cases "isFinal \<and> meaningfulSpeech (trim raw)")
  case True
  obtain more where m: "calls (handleVoiceCommand (trim raw) (recognition_stop w))
      = calls (recognition_stop w) @ more"
    using calls_handleVoiceCommand by blast
  have r: "\<not> recRunning (handleVoiceCommand (trim raw) (recognition_stop w))"
    by (rule recRunning_handleVoiceCommand) (simp add: recognition_stop_def)
  show ?thesis
    using True m r by (simp add: recognition_onresult_def recognition_stop_def)
next
  case False
  then show ?thesis by (auto simp: recognition_onresult_def)
qed

theorem final_transcript_filtered_in_any_state_witness:
  "turnState welcome_mic_open = Speaking \<and>
   recognition_onresult True ''what do you see'' welcome_mic_open
     = handleVoiceCommand ''what do you see'' (recognition_stop welcome_mic_open) \<and>
   \<not> recRunning (recognition_onresult True ''what do you see'' welcome_mic_open) \<and>
   recognition_onresult True ''the'' welcome_mic_open = welcome_mic_open"
proof -
  have s: "turnState welcome_mic_open = Speaking"
    by (simp add: welcome_mic_open_value turnState_def)
  have t: "trim ''what do you see'' = ''what do you see''" by code_simp
  have m: "meaningfulSpeech (trim ''what do you see'')" by code_simp
  have n: "\<not> meaningfulSpeech (trim ''the'')" by code_simp
  have c1: "(True \<and> meaningfulSpeech ''what do you see'') = True" using m t by simp
  have c2: "(True \<and> meaningfulSpeech (trim ''the'')) = False" using n by simp
  note a = final_transcript_filtered_in_any_state
             [of True "''what do you see''" welcome_mic_open, unfolded t c1 if_True]
  note b = final_transcript_filtered_in_any_state
             [of True "''the''" welcome_mic_open, unfolded c2 if_False]
  from a have a1: "recognition_onresult True ''what do you see'' welcome_mic_open
                     = handleVoiceCommand ''what do you see'' (recognition_stop welcome_mic_open)"
    and a2: "\<not> recRunning (recognition_onresult True ''what do you see'' welcome_mic_open)"
    by blast+
  from s a1 a2 b show ?thesis by blast
qed

text \<open>
  C4 as stated fails: while the welcome message is playing (state \<open>Speaking\<close>) a final
  transcript "what do you see" stops the recogniser and sends a query; and while that
  query is in flight (state \<open>Processing\<close>) a second final transcript sends a second one.
\<close>

theorem transcript_acted_on_outside_listening:
  "turnState welcome_mic_open = Speaking \<and>
   pendingQuery welcome_mic_open = [] \<and>
   pendingQuery (step (RecResult True ''what do you see'') welcome_mic_open)
     = [''what do you see''] \<and>
   calls (step (RecResult True ''what do you see'') welcome_mic_open)
     = calls welcome_mic_open @ [RecognitionStop, QueryFetch ''what do you see''] \<and>
   turnState (step (RecResult True ''what do you see'') listening) = Processing \<and>
   pendingQuery (run [RecResult True ''what do you see'', RecResult True ''what do you see'']
      listening) = [''what do you see'', ''what do you see'']"
  by (simp add: welcome_mic_open_value listening_value turnState_def what_do_you_see desktop_def
      handler_defs)


section \<open>C5: the listening watchdog\<close>

text \<open>
  C5, as the code has it: while playback is flagged (state \<open>Speaking\<close>) the interval
  callback, the start it schedules and the retry are all no-ops: the state, port log
  included, is unchanged. The guard is on \<open>isPlaying\<close> and on continuous mode only.
\<close>

theorem watchdog_idle_while_speaking:
  assumes "turnState w = Speaking"
  shows "step WatchdogTick w = w \<and> watchdog_tick w = w \<and>
         watchdog_restart w = w \<and> watchdog_retry w = w"
proof -
  from assms have "isPlaying w"
    by (simp add: turnState_def split: if_splits)
  then show ?thesis
    by (simp add: watchdog_tick_def watchdog_restart_def watchdog_retry_def)
qed

theorem watchdog_idle_while_speaking_witness:
  "turnState welcome_mic_open = Speaking \<and>
   step WatchdogTick welcome_mic_open = welcome_mic_open \<and>
   watchdog_tick welcome_mic_open = welcome_mic_open"
proof -
  have s: "turnState welcome_mic_open = Speaking"
    by (simp add: welcome_mic_open_value turnState_def)
  from watchdog_idle_while_speaking [OF s] s show ?thesis by blast
qed

text \<open>
  C5 as stated fails for \<open>Processing\<close>: on the phone, with a query in flight, nothing
  playing and the recogniser stopped, the tick schedules a start 200 ms later, and that
  start runs the recogniser while the query is still in flight.
\<close>

theorem watchdog_restarts_while_processing:
  "turnState phone_processing = Processing \<and>
   mobileRestartInterval phone_processing \<and>
   \<not> recRunning phone_processing \<and>
   timers (step WatchdogTick phone_processing)
     = [(3700, WatchdogRestart), (4500, OnendRestart)] \<and>
   turnState (run [WatchdogTick, Timer] phone_processing) = Processing \<and>
   recRunning (run [WatchdogTick, Timer] phone_processing) \<and>
   calls (run [WatchdogTick, Timer] phone_processing)
     = calls phone_processing @ [RecognitionStart]"
  by (simp add: phone_processing_value turnState_def phone_def desktop_def handler_defs)


section \<open>C6 and C7: the utterance filter\<close>




text \<open>
  C7. A transcript that contains one of the echo fragments is never let through, whatever
  its word count or keywords: the handler leaves the state as it was, so no query is
  issued.
\<close>

theorem echo_rejected:
  assumes "isEcho (trim raw)"
  shows "\<not> meaningfulSpeech (trim raw) \<and> recognition_onresult isFinal raw w = w"
  using assms by (simp add: meaningfulSpeech_def recognition_onresult_def)

text \<open>Seven words, one of them a keyword, and still rejected.\<close>

theorem echo_rejected_witness:
  "isEcho (trim ''I see a room with four chairs'') \<and>
   7 = length (transcriptWords (trim ''I see a room with four chairs'')) \<and>
   hasQuestionWord (trim ''I see a room with four chairs'') \<and>
   \<not> meaningfulSpeech (trim ''I see a room with four chairs'') \<and>
   recognition_onresult True ''I see a room with four chairs'' listening = listening"
proof -
  have e: "isEcho (trim ''I see a room with four chairs'')" by code_simp
  have n: "7 = length (transcriptWords (trim ''I see a room with four chairs''))" by code_simp
  have k: "hasQuestionWord (trim ''I see a room with four chairs'')" by code_simp
  from echo_rejected [OF e, of True listening] e n k show ?thesis by blast
qed


section \<open>C8: errors of the recogniser\<close>

text \<open>
  C8, as the code has it. When no recogniser can be created, the constructor speaks a
  notice once and recognition is never started in any later state. Continuous mode is
  never disabled, in any reachable state on any platform. An error of the recogniser
  other than \<open>no-speech\<close> and \<open>network\<close> (permission denied is \<open>not-allowed\<close>) only clears
  the listening flag: nothing is spoken. And whenever continuous mode is on and nothing
  is playing, the end handler schedules a restart 1000 ms later, which starts the
  recogniser again.
\<close>

theorem recognition_errors_not_terminal:
  "(support p \<noteq> Supported \<longrightarrow>
      neverStarted (run es (newBlindVisionApp p)) \<and>
      timers (initializeSpeechRecognition (fields p)) =
        [(300, SpeakResume (if support p = Unsupported
            then ''Sorry, speech recognition is not supported in your browser. Please use Chrome or Safari.''
            else ''Failed to initialize speech recognition.''))]) \<and>
   continuousListening (run es (newBlindVisionApp p)) \<and>
   (err \<noteq> ''no-speech'' \<and> err \<noteq> ''network'' \<longrightarrow>
      recognition_onerror err w = w\<lparr>isListening := False\<rparr>) \<and>
   (continuousListening w \<and> \<not> isPlaying w \<longrightarrow>
      recognition_onend w =
        w\<lparr>isListening := False, timers := schedule (now w + 1000, OnendRestart) (timers w)\<rparr> \<and>
      onend_restart w = startContinuousListening w)"
proof -
  have a: "support p \<noteq> Supported \<Longrightarrow> neverStarted (run es (newBlindVisionApp p))"
    by (simp add: neverStarted_new neverStarted_run)
  have b: "support p \<noteq> Supported \<Longrightarrow>
      timers (initializeSpeechRecognition (fields p)) =
        [(300, SpeakResume (if support p = Unsupported
            then ''Sorry, speech recognition is not supported in your browser. Please use Chrome or Safari.''
            else ''Failed to initialize speech recognition.''))]"
    by (cases "support p")
      (simp_all add: initializeSpeechRecognition_def fields_def speak_def stopAllAudio_def Let_def)
  have c: "continuousListening (run es (newBlindVisionApp p))"
    by (simp add: continuous_new continuous_run)
  have d: "err \<noteq> ''no-speech'' \<Longrightarrow> err \<noteq> ''network'' \<Longrightarrow>
      recognition_onerror err w = w\<lparr>isListening := False\<rparr>"
    by (simp add: recognition_onerror_def)
  have e: "continuousListening w \<Longrightarrow> \<not> isPlaying w \<Longrightarrow>
      recognition_onend w =
        w\<lparr>isListening := False, timers := schedule (now w + 1000, OnendRestart) (timers w)\<rparr> \<and>
      onend_restart w = startContinuousListening w"
    by (simp add: recognition_onend_def onend_restart_def setTimeout_def)
  show ?thesis using a b c d e by blast
qed

theorem recognition_errors_not_terminal_witness:
  "support (desktop\<lparr>support := Unsupported\<rparr>) \<noteq> Supported \<and>
   neverStarted (run [Timer, TtsSettled True, Timer, AudioEnded 0, Timer, Touch]
     (newBlindVisionApp (desktop\<lparr>support := Unsupported\<rparr>))) \<and>
   continuousListening (run [Timer, TtsSettled True, Timer, AudioEnded 0, Timer, Touch]
     (newBlindVisionApp (desktop\<lparr>support := Unsupported\<rparr>))) \<and>
   ''not-allowed'' \<noteq> ''no-speech'' \<and> ''not-allowed'' \<noteq> ''network'' \<and>
   recognition_onerror ''not-allowed'' listening = listening\<lparr>isListening := False\<rparr> \<and>
   continuousListening listening \<and> \<not> isPlaying listening \<and>
   timers (recognition_onend listening) = [(4500, OnendRestart)]"
proof -
  have s: "support (desktop\<lparr>support := Unsupported\<rparr>) \<noteq> Supported"
    by (simp add: desktop_def)
  have k: "''not-allowed'' \<noteq> ''no-speech'' \<and> ''not-allowed'' \<noteq> ''network''"
    by simp
  have l: "continuousListening listening \<and> \<not> isPlaying listening"
    by (simp add: listening_value)
  have v: "schedule (now listening + 1000, OnendRestart) (timers listening)
             = [(4500, OnendRestart)]"
    by (simp add: listening_value)
  note th = recognition_errors_not_terminal
    [of "desktop\<lparr>support := Unsupported\<rparr>"
        "[Timer, TtsSettled True, Timer, AudioEnded 0, Timer, Touch]" "''not-allowed''" listening]
  from th s have t1:
    "neverStarted (run [Timer, TtsSettled True, Timer, AudioEnded 0, Timer, Touch]
       (newBlindVisionApp (desktop\<lparr>support := Unsupported\<rparr>)))"
    by blast
  from th have t2:
    "continuousListening (run [Timer, TtsSettled True, Timer, AudioEnded 0, Timer, Touch]
       (newBlindVisionApp (desktop\<lparr>support := Unsupported\<rparr>)))"
    by blast
  from th k have t3: "recognition_onerror ''not-allowed'' listening = listening\<lparr>isListening := False\<rparr>"
    by blast
  from th l have "recognition_onend listening =
      listening\<lparr>isListening := False,
        timers := schedule (now listening + 1000, OnendRestart) (timers listening)\<rparr>"
    by blast
  then have t4: "timers (recognition_onend listening) = [(4500, OnendRestart)]"
    by (simp add: v)
  from s t1 t2 k t3 l t4 show ?thesis by blast
qed

text \<open>
  C8 as stated fails for permission denied: the application is listening, the recogniser
  reports \<open>not-allowed\<close> and ends, and one second later it is started again; continuous
  mode is still on, and nothing was spoken or queued.
\<close>

theorem permission_denied_restarts:
  "turnState listening = Listening \<and>
   continuousListening (run [RecError ''not-allowed'', RecEnd, Timer] listening) \<and>
   recRunning (run [RecError ''not-allowed'', RecEnd, Timer] listening) \<and>
   turnState (run [RecError ''not-allowed'', RecEnd, Timer] listening) = Listening \<and>
   speechQueue (run [RecError ''not-allowed'', RecEnd, Timer] listening) = [] \<and>
   timers (run [RecError ''not-allowed'', RecEnd, Timer] listening) = [] \<and>
   calls (run [RecError ''not-allowed'', RecEnd, Timer] listening)
     = calls listening @ [RecognitionStart]"
  by (simp add: listening_value turnState_def desktop_def handler_defs)


section \<open>C9: stopping all audio twice\<close>

text \<open>
  C9, as the code has it: a second \<open>stopAllAudio\<close> changes nothing but the port log,
  where it repeats the cancel and pause of the browser voice. No operation in it can
  fail. After one call or two, playback is not flagged and there is no current audio; the
  queue and the listening flag are as they were before the first call.
\<close>

theorem stopAllAudio_twice:
  "stopAllAudio (stopAllAudio w) =
     (stopAllAudio w)\<lparr>calls := calls (stopAllAudio w) @
        (if hasSynth (env w) then [SynthCancel, SynthPause] else [])\<rparr> \<and>
   \<not> isPlaying (stopAllAudio w) \<and> currentAudio (stopAllAudio w) = None \<and>
   speechQueue (stopAllAudio w) = speechQueue w \<and>
   isListening (stopAllAudio w) = isListening w"
  by (cases "currentAudio w") (simp_all add: stopAllAudio_def Let_def)

text \<open>C9 as stated fails on the queue: two calls leave the queued answer in place.\<close>

theorem stopAllAudio_twice_keeps_queue:
  "turnState help_playing = Speaking \<and>
   speechQueue (stopAllAudio (stopAllAudio help_playing)) = [''a chair ahead'']"
  by (simp add: help_playing_value turnState_def stopAllAudio_def Let_def desktop_def)


section \<open>C10: one playback at a time\<close>

text \<open>
  C10 says that a \<open>speak\<close> during playback only queues its text, so that at most one
  playback exists at any time. The first half holds for the flag (lemma
  \<open>speak_while_playing\<close>); the conclusion does not. \<open>isPlaying\<close> is set when \<open>speak\<close> begins,
  but the audio starts only after the 300 ms wait and the text-to-speech request, and a
  touch in between clears the flag without cancelling that \<open>speak\<close>. Here the screen is
  touched while the welcome audio is being fetched; the camera is denied, so
  \<open>startCamera\<close> speaks its message, which is not queued because the flag is clear; both
  requests answer, and two \<open>Audio\<close> elements play at once.
\<close>

theorem two_audio_elements_playing:
  "\<not> isPlaying touched_during_fetch \<and>
   audioPlaying touched_during_fetch = [] \<and>
   pendingTTS touched_during_fetch
     = [''BlindVision Assistant ready. Just speak to ask me questions.''] \<and>
   pendingTTS (run [Timer, Timer] touched_during_fetch)
     = [''BlindVision Assistant ready. Just speak to ask me questions.'',
        ''Camera access denied. Please allow camera permissions and refresh the page.''] \<and>
   audioPlaying (run [Timer, Timer, TtsSettled True, TtsSettled True] touched_during_fetch)
     = [0, 1] \<and>
   speechQueue (run [Timer, Timer, TtsSettled True, TtsSettled True] touched_during_fetch) = []"
  by (simp add: touched_during_fetch_value desktop_def handler_defs)

end
